theory Spec2Isabelle
  imports Main
begin

section \<open>ReactiveVector: a vector that emits a signal on every modification\<close>

text \<open>
  The development embeds \<^verbatim>\<open>src/reactive_vector.hpp\<close>. The class \<^verbatim>\<open>ReactiveVector<T>\<close>
  holds a \<^verbatim>\<open>std::vector<T> vec_\<close> and a \<^verbatim>\<open>SignalEmitter signal_emitter\<close>; every member
  function forwards to the vector and then emits one signal, or none.

  Values of \<^verbatim>\<open>size_type\<close> are natural numbers. The only subtraction the class performs
  on them, \<^verbatim>\<open>vec_.size() - 1\<close>, is evaluated on a non-empty vector, so no wrap-around can
  occur. Iterators are positions counted from \<^verbatim>\<open>begin()\<close>. Behaviour that C++ leaves
  undefined is the result \<open>Undefined\<close>.

  \<^verbatim>\<open>reserve\<close> and \<^verbatim>\<open>resize\<close> take a count from their caller, and \<^verbatim>\<open>std::vector\<close> refuses
  a count above \<^verbatim>\<open>max_size()\<close> with \<^verbatim>\<open>std::length_error\<close>, which the class lets through:
  the result \<open>LengthError\<close>. The exhaustion of memory (\<^verbatim>\<open>std::bad_alloc\<close>) is outside the
  model. So is the \<^verbatim>\<open>length_error\<close> of an insertion of one element, which needs a vector
  of \<^verbatim>\<open>max_size()\<close> elements, more than memory holds; and a constructor that throws
  builds no vector.
\<close>

subsection \<open>Signals\<close>

text \<open>
  \<^verbatim>\<open>VectorSignals<T>\<close>: the six signal structs. The reference members
  (\<^verbatim>\<open>const T &value\<close> and the like) are read while \<^verbatim>\<open>emit\<close> runs, so a signal carries the
  value its reference denotes at the moment of emission.
\<close>

datatype 'a signal =
    Inserted nat 'a
  | Updated nat 'a 'a
  | Erased nat 'a
  | Cleared
  | Reserved nat
  | Resized nat nat

datatype error = OutOfRange | LengthError | Undefined

subsection \<open>The underlying std::vector\<close>

text \<open>
  \<^verbatim>\<open>std::vector<T>\<close> as the C++ standard describes it: the stored elements, the
  capacity, and the allocation that holds the elements (numbered: a reallocation moves
  the elements to a fresh one and releases the old one). How far the capacity grows on
  a reallocation is left to the implementation; the standard promises only that it is
  no smaller than the size asked for. The implementation's choice is the parameter \<open>g\<close>
  (from the capacity before and the size needed to the capacity it would pick), and
  \<open>new_capacity\<close> adds the promise. One parameter stands for the choice made in
  every member function that allocates; the properties below hold for each \<open>g\<close>.
\<close>

record 'a vector =
  elems :: "'a list"
  cap :: nat
  storage :: nat

type_synonym growth = "nat \<Rightarrow> nat \<Rightarrow> nat"

definition new_capacity :: "growth \<Rightarrow> nat \<Rightarrow> nat \<Rightarrow> nat" where
  "new_capacity g old_cap needed = max needed (g old_cap needed)"

definition vector_empty :: "'a vector \<Rightarrow> bool" where
  "vector_empty v = (elems v = [])"

definition vector_size :: "'a vector \<Rightarrow> nat" where
  "vector_size v = length (elems v)"

definition vector_capacity :: "'a vector \<Rightarrow> nat" where
  "vector_capacity v = cap v"

text \<open>\<^verbatim>\<open>vector(n, value)\<close> and \<^verbatim>\<open>vector(init)\<close>; the default constructor allocates nothing.\<close>

definition vector_default :: "'a vector" where
  "vector_default = \<lparr>elems = [], cap = 0, storage = 0\<rparr>"

definition vector_fill :: "growth \<Rightarrow> nat \<Rightarrow> 'a \<Rightarrow> 'a vector" where
  "vector_fill g n x = \<lparr>elems = replicate n x, cap = new_capacity g 0 n, storage = 0\<rparr>"

definition vector_init :: "growth \<Rightarrow> 'a list \<Rightarrow> 'a vector" where
  "vector_init g init = \<lparr>elems = init, cap = new_capacity g 0 (length init), storage = 0\<rparr>"

text \<open>\<^verbatim>\<open>vec_.at(i)\<close> throws \<^verbatim>\<open>std::out_of_range\<close> unless \<^verbatim>\<open>i < size()\<close>.\<close>

definition vector_at :: "nat \<Rightarrow> 'a vector \<Rightarrow> error + 'a" where
  "vector_at i v = (if i < vector_size v then Inr (elems v ! i) else Inl OutOfRange)"

text \<open>
  Room for \<open>n\<close> elements: new storage when \<open>n\<close> exceeds the capacity, nothing
  otherwise. \<^verbatim>\<open>reserve\<close>, \<^verbatim>\<open>resize\<close> and the insertions all reallocate in this way, when
  the size they need exceeds the capacity and not before.
\<close>

definition vector_grow_to :: "growth \<Rightarrow> nat \<Rightarrow> 'a vector \<Rightarrow> 'a vector" where
  "vector_grow_to g n v =
     (if cap v < n then v\<lparr>cap := new_capacity g (cap v) n, storage := Suc (storage v)\<rparr>
      else v)"

text \<open>
  \<^verbatim>\<open>vec_.reserve(n)\<close> throws \<^verbatim>\<open>std::length_error\<close> when \<open>n\<close> exceeds \<^verbatim>\<open>max_size()\<close>, and
  the vector is then as it was. \<^verbatim>\<open>max_size()\<close> is a constant of the implementation and
  of the element type: the parameter \<open>max_size\<close>.
\<close>

definition vector_reserve :: "nat \<Rightarrow> growth \<Rightarrow> nat \<Rightarrow> 'a vector \<Rightarrow> error + 'a vector" where
  "vector_reserve max_size g n v =
     (if max_size < n then Inl LengthError else Inr (vector_grow_to g n v))"

definition vector_push_back :: "growth \<Rightarrow> 'a \<Rightarrow> 'a vector \<Rightarrow> 'a vector" where
  "vector_push_back g x v =
     (let v' = vector_grow_to g (vector_size v + 1) v in v'\<lparr>elems := elems v' @ [x]\<rparr>)"

text \<open>
  \<^verbatim>\<open>vec_.back()\<close>, \<^verbatim>\<open>vec_.pop_back()\<close> and \<^verbatim>\<open>vec_[i]\<close> have no defined behaviour on an
  empty vector or beyond its size. The class calls them only after checking
  (\<^verbatim>\<open>pop_back\<close>, \<^verbatim>\<open>update_if_exists\<close>) or after an insertion; \<^verbatim>\<open>erase\<close> returns
  \<open>Undefined\<close> where its caller breaks the precondition.
\<close>

definition vector_back :: "'a vector \<Rightarrow> 'a" where
  "vector_back v = last (elems v)"

definition vector_pop_back :: "'a vector \<Rightarrow> 'a vector" where
  "vector_pop_back v = v\<lparr>elems := butlast (elems v)\<rparr>"

definition vector_clear :: "'a vector \<Rightarrow> 'a vector" where
  "vector_clear v = v\<lparr>elems := []\<rparr>"

text \<open>
  \<^verbatim>\<open>vec_.resize(n, x)\<close>: below the size it drops the elements from index \<open>n\<close> on; above
  the size it appends copies of \<open>x\<close>, and throws \<^verbatim>\<open>std::length_error\<close> before it appends
  anything when \<open>n\<close> exceeds \<^verbatim>\<open>max_size()\<close>.
\<close>

definition vector_resize ::
  "nat \<Rightarrow> growth \<Rightarrow> nat \<Rightarrow> 'a \<Rightarrow> 'a vector \<Rightarrow> error + 'a vector" where
  "vector_resize max_size g n x v =
     (if n < vector_size v then Inr (v\<lparr>elems := take n (elems v)\<rparr>)
      else if vector_size v < n then
        (if max_size < n then Inl LengthError
         else
           (let v' = vector_grow_to g n v
            in Inr (v'\<lparr>elems := elems v' @ replicate (n - vector_size v) x\<rparr>)))
      else Inr v)"

definition vector_get :: "nat \<Rightarrow> 'a vector \<Rightarrow> 'a" where
  "vector_get i v = elems v ! i"

definition vector_set :: "nat \<Rightarrow> 'a \<Rightarrow> 'a vector \<Rightarrow> 'a vector" where
  "vector_set i x v = v\<lparr>elems := (elems v)[i := x]\<rparr>"

definition vector_erase :: "nat \<Rightarrow> 'a vector \<Rightarrow> 'a vector" where
  "vector_erase pos v = v\<lparr>elems := take pos (elems v) @ drop (Suc pos) (elems v)\<rparr>"

text \<open>
  A parameter of type \<^verbatim>\<open>const T &\<close> denotes an object: one that lives outside the vector
  (a variable or a temporary, given by its value), or an element of the vector, given by
  the allocation it lies in and its index. Reading an element through a reference into
  an allocation that the vector has released, or beyond the size, is undefined.
\<close>

datatype 'a reference = Object 'a | Element nat nat

fun deref :: "'a reference \<Rightarrow> 'a vector \<Rightarrow> error + 'a" where
  "deref (Object x) v = Inr x"
| "deref (Element a i) v =
     (if a = storage v \<and> i < vector_size v then Inr (elems v ! i) else Inl Undefined)"

subsection \<open>The reactive vector\<close>

text \<open>
  Modelled from the spec: the signal emitter (\<^verbatim>\<open>SignalEmitter\<close>, declared in
  \<^verbatim>\<open>sbpt_generated_includes.hpp\<close>, which is not among the sources). The spec has
  \<^verbatim>\<open>emit\<close> deliver the event synchronously, before the emitting call returns, and never
  call back into the sequence; the emitter is therefore the list of the events emitted
  so far, oldest first.
\<close>

record 'a reactive_vector =
  vec :: "'a vector"
  signal_emitter :: "'a signal list"

definition emit :: "'a signal \<Rightarrow> 'a reactive_vector \<Rightarrow> 'a reactive_vector" where
  "emit e s = s\<lparr>signal_emitter := signal_emitter s @ [e]\<rparr>"

text \<open>The three constructors. None of them emits.\<close>

definition ReactiveVector_default :: "'a reactive_vector" where
  "ReactiveVector_default = \<lparr>vec = vector_default, signal_emitter = []\<rparr>"

definition ReactiveVector_fill :: "growth \<Rightarrow> nat \<Rightarrow> 'a \<Rightarrow> 'a reactive_vector" where
  "ReactiveVector_fill g n x = \<lparr>vec = vector_fill g n x, signal_emitter = []\<rparr>"

definition ReactiveVector_init :: "growth \<Rightarrow> 'a list \<Rightarrow> 'a reactive_vector" where
  "ReactiveVector_init g init = \<lparr>vec = vector_init g init, signal_emitter = []\<rparr>"

definition empty_rv :: "'a reactive_vector \<Rightarrow> bool" where
  "empty_rv s = vector_empty (vec s)"

definition size_rv :: "'a reactive_vector \<Rightarrow> nat" where
  "size_rv s = vector_size (vec s)"

definition capacity :: "'a reactive_vector \<Rightarrow> nat" where
  "capacity s = vector_capacity (vec s)"

text \<open>
  \<^verbatim>\<open>at(i)\<close>: the element, or the \<^verbatim>\<open>std::out_of_range\<close> of \<^verbatim>\<open>vec_.at(i)\<close>, which the
  class does not catch. The vector after the call is returned beside the outcome.
\<close>

definition at :: "nat \<Rightarrow> 'a reactive_vector \<Rightarrow> (error + 'a) \<times> 'a reactive_vector" where
  "at i s = (vector_at i (vec s), s)"

text \<open>
  \<^verbatim>\<open>T &operator[](i)\<close>: the reference to the element, for the caller to read, to write
  or to pass on. Nothing is checked: beyond the size the behaviour is undefined.
\<close>

definition subscript :: "nat \<Rightarrow> 'a reactive_vector \<Rightarrow> error + 'a reference" where
  "subscript i s =
     (if i < vector_size (vec s) then Inr (Element (storage (vec s)) i) else Inl Undefined)"

text \<open>
  \<^verbatim>\<open>push_back(const T &value)\<close>. The parameter is a reference and is read twice:
  by \<^verbatim>\<open>vec_.push_back(value)\<close>, which copies the object it denotes, and, after the
  insertion, by the signal \<^verbatim>\<open>inserted_signal{vec_.size() - 1, value}\<close>.
\<close>

definition push_back ::
  "growth \<Rightarrow> 'a reference \<Rightarrow> 'a reactive_vector \<Rightarrow> error + 'a reactive_vector" where
  "push_back g value s =
     (case deref value (vec s) of
        Inl e \<Rightarrow> Inl e
      | Inr x \<Rightarrow>
          (let s1 = s\<lparr>vec := vector_push_back g x (vec s)\<rparr>
           in case deref value (vec s1) of
                Inl e \<Rightarrow> Inl e
              | Inr y \<Rightarrow> Inr (emit (Inserted (vector_size (vec s1) - 1) y) s1)))"

text \<open>
  \<^verbatim>\<open>push_back(T &&value)\<close>: the argument is a temporary, given by its value, and is
  moved into the vector; the signal carries \<^verbatim>\<open>vec_.back()\<close>.
\<close>

definition push_back_move :: "growth \<Rightarrow> 'a \<Rightarrow> 'a reactive_vector \<Rightarrow> 'a reactive_vector" where
  "push_back_move g v s =
     (let s1 = s\<lparr>vec := vector_push_back g v (vec s)\<rparr>
      in emit (Inserted (vector_size (vec s1) - 1) (vector_back (vec s1))) s1)"

text \<open>
  \<^verbatim>\<open>emplace_back(args...)\<close>: \<open>ctor\<close> stands for the constructor of \<open>T\<close> that the arguments
  select. The result is the reference to the new last element and the vector.
\<close>

definition emplace_back ::
  "growth \<Rightarrow> ('b \<Rightarrow> 'a) \<Rightarrow> 'b \<Rightarrow> 'a reactive_vector \<Rightarrow> 'a \<times> 'a reactive_vector" where
  "emplace_back g ctor args s =
     (let s1 = s\<lparr>vec := vector_push_back g (ctor args) (vec s)\<rparr>;
          s2 = emit (Inserted (vector_size (vec s1) - 1) (vector_back (vec s1))) s1
      in (vector_back (vec s2), s2))"

definition pop_back :: "'a reactive_vector \<Rightarrow> 'a reactive_vector" where
  "pop_back s =
     (if vector_empty (vec s) then s
      else
        (let index = vector_size (vec s) - 1;
             old_value = vector_back (vec s);
             s1 = s\<lparr>vec := vector_pop_back (vec s)\<rparr>
         in emit (Erased index old_value) s1))"

definition clear :: "'a reactive_vector \<Rightarrow> 'a reactive_vector" where
  "clear s =
     (if \<not> vector_empty (vec s) then emit Cleared (s\<lparr>vec := vector_clear (vec s)\<rparr>)
      else s)"

text \<open>
  \<^verbatim>\<open>reserve(new_cap)\<close> and \<^verbatim>\<open>resize(new_size, value)\<close> catch nothing: the exception of
  \<^verbatim>\<open>vec_.reserve\<close> or \<^verbatim>\<open>vec_.resize\<close> leaves the function before the comparison and the
  \<^verbatim>\<open>emit\<close>. The result is the outcome, \<open>Inr ()\<close> for a normal return, and the vector
  after the call.
\<close>

definition reserve ::
  "nat \<Rightarrow> growth \<Rightarrow> nat \<Rightarrow> 'a reactive_vector \<Rightarrow> (error + unit) \<times> 'a reactive_vector" where
  "reserve max_size g new_cap s =
     (let old_cap = vector_capacity (vec s)
      in case vector_reserve max_size g new_cap (vec s) of
           Inl e \<Rightarrow> (Inl e, s)
         | Inr v' \<Rightarrow>
             (let s1 = s\<lparr>vec := v'\<rparr>
              in if vector_capacity (vec s1) \<noteq> old_cap
                 then (Inr (), emit (Reserved (vector_capacity (vec s1))) s1)
                 else (Inr (), s1)))"

text \<open>
  \<^verbatim>\<open>resize(new_size, const T &value = T())\<close>: the parameter is read by \<^verbatim>\<open>vec_.resize\<close>
  alone, which copies from it before it releases any storage, so it is given by its
  value.
\<close>

definition resize ::
  "nat \<Rightarrow> growth \<Rightarrow> nat \<Rightarrow> 'a \<Rightarrow> 'a reactive_vector
     \<Rightarrow> (error + unit) \<times> 'a reactive_vector" where
  "resize max_size g new_size v s =
     (let old_size = vector_size (vec s)
      in case vector_resize max_size g new_size v (vec s) of
           Inl e \<Rightarrow> (Inl e, s)
         | Inr v' \<Rightarrow>
             (let s1 = s\<lparr>vec := v'\<rparr>
              in if new_size \<noteq> old_size
                 then (Inr (), emit (Resized old_size new_size) s1)
                 else (Inr (), s1)))"

definition update_if_exists ::
  "nat \<Rightarrow> 'a \<Rightarrow> 'a reactive_vector \<Rightarrow> bool \<times> 'a reactive_vector" where
  "update_if_exists index new_value s =
     (if index \<ge> vector_size (vec s) then (False, s)
      else
        (let old_value = vector_get index (vec s);
             s1 = s\<lparr>vec := vector_set index new_value (vec s)\<rparr>
         in (True, emit (Updated index old_value (vector_get index (vec s1))) s1)))"

text \<open>
  \<^verbatim>\<open>erase(pos)\<close>: \<open>pos\<close> must denote an element. \<^verbatim>\<open>*pos\<close> and \<^verbatim>\<open>vec_.erase(pos)\<close> have no
  defined behaviour otherwise, which is the result \<open>Undefined\<close>. The iterator returned
  follows the removed element: it is at the same distance from \<^verbatim>\<open>begin()\<close>.
\<close>

definition erase :: "nat \<Rightarrow> 'a reactive_vector \<Rightarrow> error + (nat \<times> 'a reactive_vector)" where
  "erase pos s =
     (if pos < vector_size (vec s) then
        (let index = pos;
             old_value = vector_get pos (vec s);
             s1 = s\<lparr>vec := vector_erase pos (vec s)\<rparr>
         in Inr (pos, emit (Erased index old_value) s1))
      else Inl Undefined)"

subsection \<open>Sequences of operations\<close>

text \<open>
  The ways to build a vector and the operations that change it, as data, so that a
  program using the class is a constructor and a list of operations. An operation whose
  behaviour is undefined ends the run; after a \<^verbatim>\<open>reserve\<close> or \<^verbatim>\<open>resize\<close> that throws, the
  run goes on from the vector the call has left, as a caller that catches does.
\<close>

datatype 'a construction = Default | Fill nat 'a | InitList "'a list"

fun construct :: "growth \<Rightarrow> 'a construction \<Rightarrow> 'a reactive_vector" where
  "construct g Default = ReactiveVector_default"
| "construct g (Fill n x) = ReactiveVector_fill g n x"
| "construct g (InitList init) = ReactiveVector_init g init"

datatype ('a, 'b) operation =
    PushBack "'a reference"
  | PushBackMove 'a
  | EmplaceBack "'b \<Rightarrow> 'a" 'b
  | PopBack
  | Clear
  | Reserve nat
  | Resize nat 'a
  | UpdateIfExists nat 'a
  | Erase nat

fun apply_operation ::
  "nat \<Rightarrow> growth \<Rightarrow> ('a, 'b) operation \<Rightarrow> 'a reactive_vector
     \<Rightarrow> error + 'a reactive_vector" where
  "apply_operation m g (PushBack value) s = push_back g value s"
| "apply_operation m g (PushBackMove v) s = Inr (push_back_move g v s)"
| "apply_operation m g (EmplaceBack ctor args) s = Inr (snd (emplace_back g ctor args s))"
| "apply_operation m g PopBack s = Inr (pop_back s)"
| "apply_operation m g Clear s = Inr (clear s)"
| "apply_operation m g (Reserve n) s = Inr (snd (reserve m g n s))"
| "apply_operation m g (Resize n v) s = Inr (snd (resize m g n v s))"
| "apply_operation m g (UpdateIfExists i v) s = Inr (snd (update_if_exists i v s))"
| "apply_operation m g (Erase pos) s =
     (case erase pos s of Inl e \<Rightarrow> Inl e | Inr (it, s') \<Rightarrow> Inr s')"

text \<open>The vectors a run passes through, one after each operation.\<close>

fun states_after ::
  "nat \<Rightarrow> growth \<Rightarrow> ('a, 'b) operation list \<Rightarrow> 'a reactive_vector
     \<Rightarrow> 'a reactive_vector list" where
  "states_after m g [] s = []"
| "states_after m g (op # ops) s =
     (case apply_operation m g op s of
        Inl e \<Rightarrow> []
      | Inr s' \<Rightarrow> s' # states_after m g ops s')"

definition capacity_covers_size :: "'a reactive_vector \<Rightarrow> bool" where
  "capacity_covers_size s = (size_rv s \<le> capacity s)"

text \<open>
  A growth policy to run the definitions with: twice the old capacity, or what is
  needed when that is more, as libstdc++ grows a vector on \<^verbatim>\<open>push_back\<close>.
\<close>

definition dbl :: growth where
  "dbl c n = 2 * c"

text \<open>
  \<^verbatim>\<open>max_size()\<close> of \<^verbatim>\<open>std::vector<int>\<close> in libstdc++ where \<^verbatim>\<open>size_t\<close> has 64 bits:
  \<^verbatim>\<open>PTRDIFF_MAX / sizeof(int)\<close>, which is \<open>2 ^ 61 - 1\<close>. The largest \<^verbatim>\<open>size_t\<close>,
  \<^verbatim>\<open>(size_t)-1\<close>, is \<open>2 ^ 64 - 1 = 18446744073709551615\<close>.
\<close>

definition max_size_int :: nat where
  "max_size_int = 2305843009213693951"

section \<open>Properties\<close>

lemmas vector_defs = vector_empty_def vector_size_def vector_capacity_def vector_default_def
  vector_fill_def vector_init_def vector_at_def vector_grow_to_def vector_reserve_def
  vector_push_back_def
  vector_back_def vector_pop_back_def vector_clear_def vector_resize_def vector_get_def
  vector_set_def vector_erase_def new_capacity_def

lemmas rv_defs = emit_def ReactiveVector_default_def ReactiveVector_fill_def
  ReactiveVector_init_def empty_rv_def size_rv_def capacity_def

subsection \<open>push_back\<close>

text \<open>
  With an argument that lives outside the vector, \<^verbatim>\<open>push_back(const T &)\<close> appends the
  value, the size grows by one and the one signal emitted is \<open>Inserted\<close> with the old
  size and the value.
\<close>

lemma push_back_object:
  "\<exists>s'. push_back g (Object v) s = Inr s'
     \<and> elems (vec s') = elems (vec s) @ [v]
     \<and> size_rv s' = size_rv s + 1
     \<and> signal_emitter s' = signal_emitter s @ [Inserted (size_rv s) v]"
  by (simp add: push_back_def Let_def vector_defs rv_defs)

text \<open>
  So it does with an element of the vector itself as the argument, as long as the
  capacity has room for one more element: nothing is reallocated.
\<close>

lemma push_back_element_with_room:
  assumes "i < size_rv s" and "size_rv s < capacity s"
  shows "\<exists>s'. push_back g (Element (storage (vec s)) i) s = Inr s'
     \<and> elems (vec s') = elems (vec s) @ [elems (vec s) ! i]
     \<and> signal_emitter s' = signal_emitter s @ [Inserted (size_rv s) (elems (vec s) ! i)]"
  using assms by (simp add: push_back_def Let_def vector_defs rv_defs nth_append)

text \<open>When the capacity is used up, the reference dangles once the element is inserted.\<close>

lemma push_back_element_full:
  assumes "i < size_rv s" and "size_rv s = capacity s"
  shows "push_back g (Element (storage (vec s)) i) s = Inl Undefined"
  using assms by (simp add: push_back_def Let_def vector_defs rv_defs)

text \<open>The overload for temporaries and \<^verbatim>\<open>emplace_back\<close> read \<^verbatim>\<open>vec_.back()\<close>.\<close>

lemma push_back_move_appends:
  "elems (vec (push_back_move g v s)) = elems (vec s) @ [v]
   \<and> size_rv (push_back_move g v s) = size_rv s + 1
   \<and> signal_emitter (push_back_move g v s) = signal_emitter s @ [Inserted (size_rv s) v]"
  by (simp add: push_back_move_def Let_def vector_defs rv_defs)

lemma emplace_back_appends:
  "fst (emplace_back g ctor args s) = ctor args
   \<and> elems (vec (snd (emplace_back g ctor args s))) = elems (vec s) @ [ctor args]
   \<and> signal_emitter (snd (emplace_back g ctor args s))
       = signal_emitter s @ [Inserted (size_rv s) (ctor args)]"
  by (simp add: emplace_back_def Let_def vector_defs rv_defs)

text \<open>
  Claim C1: for every sequence and value \<open>v\<close>, \<^verbatim>\<open>push_back(v)\<close> appends \<open>v\<close>, increases
  the size by one and emits one \<open>Inserted\<close> event whose index is the old size and whose
  value is \<open>v\<close>. The code departs from it in \<^verbatim>\<open>rv.push_back(rv[0])\<close> on the vector
  \<^verbatim>\<open>{1}\<close>, whose capacity is used up: the argument is the element at index 0, the
  insertion reallocates, and the signal is built from the reference into the storage
  that has been released. The overload for temporaries, given the same value, emits
  \<open>Inserted 1 1\<close>.
\<close>

theorem push_back_own_element_dangles:
  "subscript 0 (ReactiveVector_init dbl [1::int]) = Inr (Element 0 0)
   \<and> push_back dbl (Element 0 0) (ReactiveVector_init dbl [1::int]) = Inl Undefined
   \<and> signal_emitter (push_back_move dbl 1 (ReactiveVector_init dbl [1::int])) = [Inserted 1 1]"
  by (simp add: subscript_def push_back_def push_back_move_def Let_def vector_defs rv_defs dbl_def)

subsection \<open>pop_back\<close>

text \<open>
  Claim C2: on a non-empty sequence \<^verbatim>\<open>pop_back()\<close> removes the last element, the size
  decreases by one, and one \<open>Erased\<close> event is emitted, with the old size minus one as
  its index and the removed element as its old value; on an empty sequence nothing
  changes and nothing is emitted.
\<close>

theorem pop_back_removes_last:
  "(\<not> empty_rv s \<longrightarrow>
      elems (vec (pop_back s)) = butlast (elems (vec s))
      \<and> elems (vec s) = elems (vec (pop_back s)) @ [last (elems (vec s))]
      \<and> size_rv (pop_back s) + 1 = size_rv s
      \<and> signal_emitter (pop_back s)
          = signal_emitter s @ [Erased (size_rv s - 1) (last (elems (vec s)))])
   \<and> (empty_rv s \<longrightarrow> pop_back s = s \<and> size_rv (pop_back s) = 0)"
  by (simp add: pop_back_def Let_def vector_defs rv_defs)

theorem pop_back_removes_last_witness:
  "\<not> empty_rv (ReactiveVector_init dbl [1, 2, 3::int])
   \<and> elems (vec (pop_back (ReactiveVector_init dbl [1, 2, 3::int]))) = [1, 2]
   \<and> signal_emitter (pop_back (ReactiveVector_init dbl [1, 2, 3::int])) = [Erased 2 3]
   \<and> empty_rv (ReactiveVector_default :: int reactive_vector)
   \<and> pop_back (ReactiveVector_default :: int reactive_vector) = ReactiveVector_default"
proof -
  let ?s = "ReactiveVector_init dbl [1, 2, 3::int]"
  let ?e = "ReactiveVector_default :: int reactive_vector"
  have h: "\<not> empty_rv ?s"
    by (simp add: rv_defs vector_defs)
  have e: "empty_rv ?e"
    by (simp add: rv_defs vector_defs)
  from pop_back_removes_last [of ?s] h
  have a: "elems (vec (pop_back ?s)) = butlast (elems (vec ?s))"
    and b: "signal_emitter (pop_back ?s)
              = signal_emitter ?s @ [Erased (size_rv ?s - 1) (last (elems (vec ?s)))]"
    by blast+
  from pop_back_removes_last [of ?e] e have c: "pop_back ?e = ?e"
    by blast
  have "elems (vec (pop_back ?s)) = [1, 2]"
    unfolding a by (simp add: rv_defs vector_defs)
  moreover have "signal_emitter (pop_back ?s) = [Erased 2 3]"
    unfolding b by (simp add: rv_defs vector_defs)
  ultimately show ?thesis
    using h e c by simp
qed

subsection \<open>update_if_exists\<close>

text \<open>
  Claim C3: \<^verbatim>\<open>update_if_exists(i, v)\<close> with \<open>i\<close> at or beyond the size returns false, emits
  nothing and leaves the sequence as it is; with \<open>i\<close> below the size it returns true,
  puts \<open>v\<close> at index \<open>i\<close> and emits one \<open>Updated\<close> event with the index, the element
  that was there and \<open>v\<close>.
\<close>

theorem update_if_exists_result:
  "(size_rv s \<le> i \<longrightarrow> update_if_exists i v s = (False, s))
   \<and> (i < size_rv s \<longrightarrow>
        fst (update_if_exists i v s) = True
        \<and> elems (vec (snd (update_if_exists i v s))) = (elems (vec s))[i := v]
        \<and> elems (vec (snd (update_if_exists i v s))) ! i = v
        \<and> signal_emitter (snd (update_if_exists i v s))
            = signal_emitter s @ [Updated i (elems (vec s) ! i) v])"
  by (simp add: update_if_exists_def Let_def vector_defs rv_defs)

theorem update_if_exists_result_witness:
  "size_rv (ReactiveVector_init dbl [1, 2, 3::int]) \<le> 3
   \<and> update_if_exists 3 9 (ReactiveVector_init dbl [1, 2, 3::int])
       = (False, ReactiveVector_init dbl [1, 2, 3])
   \<and> 0 < size_rv (ReactiveVector_init dbl [1, 2, 3::int])
   \<and> elems (vec (snd (update_if_exists 0 9 (ReactiveVector_init dbl [1, 2, 3::int])))) = [9, 2, 3]
   \<and> signal_emitter (snd (update_if_exists 0 9 (ReactiveVector_init dbl [1, 2, 3::int])))
       = [Updated 0 1 9]"
  using update_if_exists_result [of "ReactiveVector_init dbl [1, 2, 3::int]" 3 9]
    update_if_exists_result [of "ReactiveVector_init dbl [1, 2, 3::int]" 0 9]
  by (simp add: rv_defs vector_defs)

text \<open>
  Claim C10: a successful \<^verbatim>\<open>update_if_exists(i, v)\<close> changes the element at index \<open>i\<close>
  only: the size, the capacity and the element at every other index stay as they were.
\<close>

theorem update_if_exists_frame:
  "i < size_rv s \<Longrightarrow>
     size_rv (snd (update_if_exists i v s)) = size_rv s
     \<and> capacity (snd (update_if_exists i v s)) = capacity s
     \<and> (\<forall>j < size_rv s. j \<noteq> i \<longrightarrow>
          elems (vec (snd (update_if_exists i v s))) ! j = elems (vec s) ! j)"
  by (simp add: update_if_exists_def Let_def vector_defs rv_defs)

theorem update_if_exists_frame_witness:
  "1 < size_rv (ReactiveVector_init dbl [1, 2, 3::int])
   \<and> size_rv (snd (update_if_exists 1 9 (ReactiveVector_init dbl [1, 2, 3::int]))) = 3
   \<and> capacity (snd (update_if_exists 1 9 (ReactiveVector_init dbl [1, 2, 3::int])))
       = capacity (ReactiveVector_init dbl [1, 2, 3::int])
   \<and> elems (vec (snd (update_if_exists 1 9 (ReactiveVector_init dbl [1, 2, 3::int])))) ! 2 = 3"
proof -
  have h: "1 < size_rv (ReactiveVector_init dbl [1, 2, 3::int])"
    by (simp add: rv_defs vector_defs)
  from update_if_exists_frame [OF h, of 9] h show ?thesis
    by (simp add: rv_defs vector_defs)
qed

subsection \<open>resize, reserve, clear\<close>







text \<open>
  Claim C6: \<^verbatim>\<open>clear()\<close> on a non-empty sequence removes every element, so that the size
  is 0, and emits one \<open>Cleared\<close> event; on an empty sequence it changes nothing and
  emits nothing.
\<close>

theorem clear_removes_all:
  "(\<not> empty_rv s \<longrightarrow>
      elems (vec (clear s)) = [] \<and> size_rv (clear s) = 0
      \<and> signal_emitter (clear s) = signal_emitter s @ [Cleared])
   \<and> (empty_rv s \<longrightarrow> clear s = s)"
  by (simp add: clear_def vector_defs rv_defs)

theorem clear_removes_all_witness:
  "\<not> empty_rv (ReactiveVector_init dbl [1, 2, 3::int])
   \<and> size_rv (clear (ReactiveVector_init dbl [1, 2, 3::int])) = 0
   \<and> signal_emitter (clear (ReactiveVector_init dbl [1, 2, 3::int])) = [Cleared]
   \<and> empty_rv (ReactiveVector_default :: int reactive_vector)
   \<and> clear (ReactiveVector_default :: int reactive_vector) = ReactiveVector_default"
  using clear_removes_all [of "ReactiveVector_init dbl [1, 2, 3::int]"]
    clear_removes_all [of "ReactiveVector_default :: int reactive_vector"]
  by (simp add: rv_defs vector_defs)

subsection \<open>erase\<close>

text \<open>
  Claim C7: for a position \<open>i\<close> that denotes an element, \<^verbatim>\<open>erase\<close> removes the element at
  index \<open>i\<close>; the elements before \<open>i\<close> keep their indices, every element after \<open>i\<close>
  moves down by one, the size decreases by one, and one \<open>Erased\<close> event is emitted with
  index \<open>i\<close> and the removed element.
\<close>

theorem erase_shifts_down:
  "i < size_rv s \<Longrightarrow>
     \<exists>s'. erase i s = Inr (i, s')
       \<and> elems (vec s') = take i (elems (vec s)) @ drop (Suc i) (elems (vec s))
       \<and> (\<forall>j < i. elems (vec s') ! j = elems (vec s) ! j)
       \<and> (\<forall>j. i \<le> j \<and> j < size_rv s' \<longrightarrow> elems (vec s') ! j = elems (vec s) ! (j + 1))
       \<and> size_rv s' + 1 = size_rv s
       \<and> signal_emitter s' = signal_emitter s @ [Erased i (elems (vec s) ! i)]"
  by (auto simp add: erase_def Let_def vector_defs rv_defs nth_append min_def)

theorem erase_shifts_down_witness:
  "1 < size_rv (ReactiveVector_init dbl [1, 2, 3::int])
   \<and> (\<exists>s'. erase 1 (ReactiveVector_init dbl [1, 2, 3::int]) = Inr (1, s')
        \<and> elems (vec s') = [1, 3] \<and> signal_emitter s' = [Erased 1 2])"
proof -
  have h: "1 < size_rv (ReactiveVector_init dbl [1, 2, 3::int])"
    by (simp add: rv_defs vector_defs)
  from erase_shifts_down [OF h] h show ?thesis
    by (auto simp add: rv_defs vector_defs)
qed

subsection \<open>at\<close>

text \<open>
  Claim C8: \<^verbatim>\<open>at(i)\<close> fails exactly when \<open>i\<close> is at or beyond the size, the failure is the
  out-of-range error, it reaches the caller and the sequence is as before; below the
  size \<^verbatim>\<open>at(i)\<close> returns the element at index \<open>i\<close> and emits nothing.
\<close>

theorem at_out_of_range:
  "(isl (fst (at i s)) \<longleftrightarrow> size_rv s \<le> i)
   \<and> (size_rv s \<le> i \<longrightarrow> at i s = (Inl OutOfRange, s))
   \<and> (i < size_rv s \<longrightarrow> at i s = (Inr (elems (vec s) ! i), s))"
  by (simp add: at_def vector_defs rv_defs)

theorem at_out_of_range_witness:
  "size_rv (ReactiveVector_init dbl [1, 2, 3::int]) \<le> 3
   \<and> at 3 (ReactiveVector_init dbl [1, 2, 3::int]) = (Inl OutOfRange, ReactiveVector_init dbl [1, 2, 3])
   \<and> 2 < size_rv (ReactiveVector_init dbl [1, 2, 3::int])
   \<and> at 2 (ReactiveVector_init dbl [1, 2, 3::int]) = (Inr 3, ReactiveVector_init dbl [1, 2, 3])"
  using at_out_of_range [of 3 "ReactiveVector_init dbl [1, 2, 3::int]"]
    at_out_of_range [of 2 "ReactiveVector_init dbl [1, 2, 3::int]"]
  by (simp add: rv_defs vector_defs)

subsection \<open>The capacity covers the size\<close>

lemma construct_inv: "capacity_covers_size (construct g c)"
  by (cases c) (simp_all add: capacity_covers_size_def rv_defs vector_defs)

lemma push_back_inv:
  assumes "capacity_covers_size s" and "push_back g r s = Inr s'"
  shows "capacity_covers_size s'"
proof -
  obtain x where x: "deref r (vec s) = Inr x"
    using assms(2) by (cases "deref r (vec s)") (simp_all add: push_back_def)
  let ?s1 = "s\<lparr>vec := vector_push_back g x (vec s)\<rparr>"
  obtain y where y: "deref r (vec ?s1) = Inr y"
    using assms(2) x by (cases "deref r (vec ?s1)") (simp_all add: push_back_def Let_def)
  have s': "s' = emit (Inserted (vector_size (vec ?s1) - 1) y) ?s1"
    using assms(2) x y by (simp add: push_back_def Let_def)
  have "capacity_covers_size ?s1"
    using assms(1) by (auto simp add: capacity_covers_size_def rv_defs vector_defs Let_def)
  then show ?thesis
    by (simp add: s' capacity_covers_size_def rv_defs)
qed

lemma apply_operation_inv:
  assumes "capacity_covers_size s" and "apply_operation m g op s = Inr s'"
  shows "capacity_covers_size s'"
proof (cases op)
  case (PushBack r)
  with assms show ?thesis
    by (auto intro: push_back_inv)
next
  case (PushBackMove v)
  with assms show ?thesis
    by (auto simp add: capacity_covers_size_def push_back_move_def Let_def rv_defs vector_defs)
next
  case (EmplaceBack ctor args)
  with assms show ?thesis
    by (auto simp add: capacity_covers_size_def emplace_back_def Let_def rv_defs vector_defs)
next
  case PopBack
  with assms show ?thesis
    by (auto simp add: capacity_covers_size_def pop_back_def Let_def rv_defs vector_defs)
next
  case Clear
  with assms show ?thesis
    by (auto simp add: capacity_covers_size_def clear_def rv_defs vector_defs)
next
  case (Reserve n)
  with assms show ?thesis
    by (auto simp add: capacity_covers_size_def reserve_def Let_def rv_defs vector_defs
        split: if_splits)
next
  case (Resize n v)
  with assms show ?thesis
    by (auto simp add: capacity_covers_size_def resize_def Let_def rv_defs vector_defs
        split: if_splits)
next
  case (UpdateIfExists i v)
  with assms show ?thesis
    by (auto simp add: capacity_covers_size_def update_if_exists_def Let_def rv_defs vector_defs)
next
  case (Erase pos)
  with assms show ?thesis
    by (auto simp add: capacity_covers_size_def erase_def Let_def rv_defs vector_defs
        split: if_splits)
qed

lemma states_after_inv:
  "capacity_covers_size s \<Longrightarrow>
     \<forall>s' \<in> set (states_after m g ops s). capacity_covers_size s'"
proof (induction ops arbitrary: s)
  case Nil
  show ?case by simp
next
  case (Cons op ops)
  show ?case
  proof (cases "apply_operation m g op s")
    case (Inl e)
    then show ?thesis by simp
  next
    case (Inr s1)
    with Cons.prems have "capacity_covers_size s1"
      by (rule apply_operation_inv)
    with Cons.IH [of s1] Inr show ?thesis by simp
  qed
qed

text \<open>
  Claim C9: in every run that starts from a constructor (empty, \<open>n\<close> copies of a
  value, an initial list) and applies \<^verbatim>\<open>push_back\<close>, \<^verbatim>\<open>emplace_back\<close>, \<^verbatim>\<open>pop_back\<close>,
  \<^verbatim>\<open>clear\<close>, \<^verbatim>\<open>reserve\<close>, \<^verbatim>\<open>resize\<close>, \<^verbatim>\<open>update_if_exists\<close> and \<^verbatim>\<open>erase\<close> any number of
  times, the capacity is at least the size at the start and after every operation.
\<close>

theorem capacity_covers_size_always:
  "\<forall>s \<in> set (construct g c # states_after m g ops (construct g c)).
     size_rv s \<le> capacity s"
  using construct_inv [of g c] states_after_inv [of "construct g c" m g ops]
  by (simp add: capacity_covers_size_def)

theorem capacity_covers_size_always_witness:
  "map (\<lambda>s. (size_rv s, capacity s))
     (construct dbl Default
      # states_after max_size_int dbl
          [PushBack (Object (1::int)), PushBackMove 2, UpdateIfExists 0 9, Reserve 10,
           Reserve 18446744073709551615, Resize 1 0, Resize 18446744073709551615 0,
           EmplaceBack (\<lambda>_. 5) (), Erase 0, PopBack, Clear]
          (construct dbl Default))
   = [(0, 0), (1, 1), (2, 2), (2, 2), (2, 10), (2, 10), (1, 10), (1, 10), (2, 10), (1, 10),
      (0, 10), (0, 10)]
   \<and> list_all (\<lambda>s. size_rv s \<le> capacity s)
     (construct dbl Default
      # states_after max_size_int dbl
          [PushBack (Object (1::int)), PushBackMove 2, UpdateIfExists 0 9, Reserve 10,
           Reserve 18446744073709551615, Resize 1 0, Resize 18446744073709551615 0,
           EmplaceBack (\<lambda>_. 5) (), Erase 0, PopBack, Clear]
          (construct dbl Default))"
proof
  show "map (\<lambda>s. (size_rv s, capacity s))
     (construct dbl Default
      # states_after max_size_int dbl
          [PushBack (Object (1::int)), PushBackMove 2, UpdateIfExists 0 9, Reserve 10,
           Reserve 18446744073709551615, Resize 1 0, Resize 18446744073709551615 0,
           EmplaceBack (\<lambda>_. 5) (), Erase 0, PopBack, Clear]
          (construct dbl Default))
   = [(0, 0), (1, 1), (2, 2), (2, 2), (2, 10), (2, 10), (1, 10), (1, 10), (2, 10), (1, 10),
      (0, 10), (0, 10)]"
    by (simp add: push_back_def push_back_move_def update_if_exists_def reserve_def resize_def
        emplace_back_def erase_def pop_back_def clear_def Let_def rv_defs vector_defs dbl_def
        max_size_int_def)
  show "list_all (\<lambda>s. size_rv s \<le> capacity s)
     (construct dbl Default
      # states_after max_size_int dbl
          [PushBack (Object (1::int)), PushBackMove 2, UpdateIfExists 0 9, Reserve 10,
           Reserve 18446744073709551615, Resize 1 0, Resize 18446744073709551615 0,
           EmplaceBack (\<lambda>_. 5) (), Erase 0, PopBack, Clear]
          (construct dbl Default))"
    unfolding list_all_iff by (rule capacity_covers_size_always)
qed

end
